theory Spec2Isabelle
  imports Main
begin

section \<open>Downloading packages to a directory\<close>

text \<open>
  A shallow embedding of \<^verbatim>\<open>pypiuploader/download.py\<close>: the class
  \<^verbatim>\<open>PackageDownloader\<close>, its exception \<^verbatim>\<open>PackageDownloadErr\<close> and the
  methods \<^verbatim>\<open>download\<close>, \<^verbatim>\<open>_build_args\<close>, \<^verbatim>\<open>_make_download_dir\<close> and
  \<^verbatim>\<open>_list_download_dir\<close>. Isabelle names cannot start with an underscore, so the
  private methods drop it.

  The module talks to three things it does not own: the operating system
  (\<^verbatim>\<open>tempfile.mkdtemp\<close>, \<^verbatim>\<open>os.makedirs\<close>, \<^verbatim>\<open>os.listdir\<close>, \<^verbatim>\<open>os.path\<close>), pip
  (\<^verbatim>\<open>pip.main\<close>, \<^verbatim>\<open>pip.__version__\<close>) and pip's vendored \<^verbatim>\<open>packaging.version\<close>.
  The calls that change the world are parameters of the model (an environment record);
  the reads and the pure library functions are modelled after their documented behaviour.
\<close>

subsection \<open>Python values\<close>

text \<open>
  An element of the argument list handed to pip. \<^verbatim>\<open>self.download_path\<close> is put into the
  list as it is, and it is \<^verbatim>\<open>None\<close> until \<^verbatim>\<open>_make_download_dir\<close> has run.
\<close>

datatype pyarg = PStr string | PNone

fun path_arg :: "string option \<Rightarrow> pyarg" where
  "path_arg None = PNone"
| "path_arg (Some p) = PStr p"

datatype oserror = EEXIST | EACCES | ENOENT | ENOTDIR | ENOSPC

text \<open>
  \<^verbatim>\<open>PackageDownloadErr\<close> carries \<^verbatim>\<open>status\<close>, \<^verbatim>\<open>args\<close> and \<^verbatim>\<open>message\<close>. (Python keeps
  \<^verbatim>\<open>Exception.args\<close> as a tuple: the same elements in the same order.)
\<close>

datatype pyerror =
    ValueError string
  | OSError oserror
  | TypeError
  | PackageDownloadErr (status: int) (args: "pyarg list") (message: string)

subsection \<open>String formatting: \<^verbatim>\<open>%d\<close> and \<^verbatim>\<open>%s\<close>\<close>

fun dec_digits :: "nat \<Rightarrow> string" where
  "dec_digits n =
     (if n < 10 then [''0123456789'' ! n]
      else dec_digits (n div 10) @ [''0123456789'' ! (n mod 10)])"

declare dec_digits.simps [simp del]

definition format_d :: "int \<Rightarrow> string" where
  "format_d i = (if i < 0 then CHR ''-'' # dec_digits (nat (- i)) else dec_digits (nat i))"

text \<open>
  \<^verbatim>\<open>repr\<close> of a byte string: single quotes, unless the string holds a single quote and no
  double quote; the quote in use and the backslash are escaped, tab, newline and carriage
  return have their letters, and every other byte outside the printable ASCII range is
  written \<^verbatim>\<open>\xNN\<close>.
\<close>

definition quote_of :: "string \<Rightarrow> char" where
  "quote_of s = (if CHR 0x27 \<in> set s \<and> CHR 0x22 \<notin> set s then CHR 0x22 else CHR 0x27)"

definition hex2 :: "nat \<Rightarrow> string" where
  "hex2 n = [''0123456789abcdef'' ! ((n div 16) mod 16), ''0123456789abcdef'' ! (n mod 16)]"

definition repr_char :: "char \<Rightarrow> char \<Rightarrow> string" where
  "repr_char q c =
     (if c = q \<or> c = CHR 0x5C then [CHR 0x5C, c]
      else if c = CHR 0x09 then [CHR 0x5C, CHR ''t'']
      else if c = CHR 0x0A then [CHR 0x5C, CHR ''n'']
      else if c = CHR 0x0D then [CHR 0x5C, CHR ''r'']
      else if of_char c < (32::nat) \<or> (127::nat) \<le> of_char c
        then [CHR 0x5C, CHR ''x''] @ hex2 (of_char c)
      else [c])"

definition repr_str :: "string \<Rightarrow> string" where
  "repr_str s = (let q = quote_of s in [q] @ concat (map (repr_char q) s) @ [q])"

fun repr_arg :: "pyarg \<Rightarrow> string" where
  "repr_arg (PStr s) = repr_str s"
| "repr_arg PNone = ''None''"

fun join_comma :: "string list \<Rightarrow> string" where
  "join_comma [] = []"
| "join_comma [x] = x"
| "join_comma (x # y # ys) = x @ '', '' @ join_comma (y # ys)"

definition format_s :: "pyarg list \<Rightarrow> string" where
  "format_s xs = ''['' @ join_comma (map repr_arg xs) @ '']''"

text \<open>\<^verbatim>\<open>PackageDownloadErr.__init__(self, status, args)\<close>\<close>

definition PackageDownloadErr_init :: "int \<Rightarrow> pyarg list \<Rightarrow> pyerror" where
  "PackageDownloadErr_init st as =
     PackageDownloadErr st as
       (''package failed download, exit '' @ format_d st @ ''. Arguments: '' @ format_s as)"

subsection \<open>Versions: \<^verbatim>\<open>packaging.version\<close>\<close>

text \<open>
  \<^verbatim>\<open>parse_version\<close> is pip's vendored \<^verbatim>\<open>packaging.version.parse\<close>. A parsed version has
  an epoch, a release tuple and optional pre-, post- and development-release parts; two
  versions are compared through the key of \<^verbatim>\<open>_cmpkey\<close>. Reading the string is not
  modelled: \<^verbatim>\<open>pip.__version__\<close> is given parsed, and a pip version has no local part.
\<close>

datatype pre_tag = Alpha | Beta | RC

record version =
  epoch :: nat
  release :: "nat list"
  pre :: "(pre_tag \<times> nat) option"
  post :: "nat option"
  dev :: "nat option"

datatype 'a ext = NegInf | Fin 'a | PosInf

fun ext_lt :: "('a \<Rightarrow> 'a \<Rightarrow> bool) \<Rightarrow> 'a ext \<Rightarrow> 'a ext \<Rightarrow> bool" where
  "ext_lt lt NegInf NegInf = False"
| "ext_lt lt NegInf _ = True"
| "ext_lt lt (Fin a) (Fin b) = lt a b"
| "ext_lt lt (Fin a) PosInf = True"
| "ext_lt lt (Fin a) NegInf = False"
| "ext_lt lt PosInf _ = False"

fun tuple_lt :: "nat list \<Rightarrow> nat list \<Rightarrow> bool" where
  "tuple_lt [] [] = False"
| "tuple_lt [] (y # ys) = True"
| "tuple_lt (x # xs) [] = False"
| "tuple_lt (x # xs) (y # ys) = (if x = y then tuple_lt xs ys else x < y)"

fun tag_rank :: "pre_tag \<Rightarrow> nat" where
  "tag_rank Alpha = 0"
| "tag_rank Beta = 1"
| "tag_rank RC = 2"

definition pre_lt :: "pre_tag \<times> nat \<Rightarrow> pre_tag \<times> nat \<Rightarrow> bool" where
  "pre_lt a b = (if fst a = fst b then snd a < snd b else tag_rank (fst a) < tag_rank (fst b))"

definition strip_zeros :: "nat list \<Rightarrow> nat list" where
  "strip_zeros r = rev (dropWhile (\<lambda>x. x = 0) (rev r))"

type_synonym cmpkey = "nat \<times> nat list \<times> (pre_tag \<times> nat) ext \<times> nat ext \<times> nat ext"

definition cmpkey :: "version \<Rightarrow> cmpkey" where
  "cmpkey v =
     (epoch v,
      strip_zeros (release v),
      (if pre v = None \<and> post v = None \<and> dev v \<noteq> None then NegInf
       else case pre v of None \<Rightarrow> PosInf | Some p \<Rightarrow> Fin p),
      (case post v of None \<Rightarrow> NegInf | Some n \<Rightarrow> Fin n),
      (case dev v of None \<Rightarrow> PosInf | Some n \<Rightarrow> Fin n))"

text \<open>Python's order on tuples: the first position that differs decides.\<close>

fun key_lt :: "cmpkey \<Rightarrow> cmpkey \<Rightarrow> bool" where
  "key_lt (e1, r1, p1, q1, d1) (e2, r2, p2, q2, d2) =
     (if e1 \<noteq> e2 then e1 < e2
      else if r1 \<noteq> r2 then tuple_lt r1 r2
      else if p1 \<noteq> p2 then ext_lt pre_lt p1 p2
      else if q1 \<noteq> q2 then ext_lt (<) q1 q2
      else ext_lt (<) d1 d2)"

definition version_lt :: "version \<Rightarrow> version \<Rightarrow> bool" where
  "version_lt a b = key_lt (cmpkey a) (cmpkey b)"

definition final_release :: "nat list \<Rightarrow> version" where
  "final_release r = \<lparr>epoch = 0, release = r, pre = None, post = None, dev = None\<rparr>"

text \<open>\<^verbatim>\<open>parse_version('8.0.0')\<close>\<close>

definition version_8_0_0 :: version where
  "version_8_0_0 = final_release [8, 0, 0]"

subsection \<open>The file system and the environment\<close>

text \<open>
  What a path resolves to (\<^verbatim>\<open>os.path.isfile\<close> follows symbolic links). A directory lists
  the names of its direct children, in the order \<^verbatim>\<open>os.listdir\<close> returns them.
\<close>

datatype node = RegularFile | Directory "string list" | Special

type_synonym filesystem = "string \<Rightarrow> node option"

text \<open>The calls that can change the world, in the order they were made.\<close>

datatype event = MkDtemp | MakeDirs string | PipMain "pyarg list"

record world =
  fs :: filesystem
  io_log :: "event list"

text \<open>
  The environment: \<^verbatim>\<open>tempfile.mkdtemp()\<close> and \<^verbatim>\<open>os.makedirs(path)\<close> return or raise,
  \<^verbatim>\<open>pip.main(args)\<close> returns its exit status; each leaves a file system. What the two
  raise is any Python exception: an \<^verbatim>\<open>OSError\<close> for a failure of the file system, and
  for a path that is no file name (one with a NUL byte) \<^verbatim>\<open>os.makedirs\<close> raises
  \<^verbatim>\<open>TypeError\<close> on Python 2 and \<^verbatim>\<open>ValueError\<close> on Python 3.
\<close>

record env =
  mkdtemp :: "filesystem \<Rightarrow> (pyerror + string) \<times> filesystem"
  makedirs :: "string \<Rightarrow> filesystem \<Rightarrow> (pyerror + unit) \<times> filesystem"
  pip_main :: "pyarg list \<Rightarrow> filesystem \<Rightarrow> int \<times> filesystem"
  pip_version :: version

text \<open>\<^verbatim>\<open>pip.status_codes.SUCCESS\<close>\<close>

definition SUCCESS :: int where
  "SUCCESS = 0"

text \<open>\<^verbatim>\<open>os.path.join(a, b)\<close>, \<^verbatim>\<open>os.path.isabs\<close>, \<^verbatim>\<open>os.path.isfile\<close>, \<^verbatim>\<open>os.listdir\<close> (POSIX)\<close>

definition isabs :: "string \<Rightarrow> bool" where
  "isabs s = (case s of [] \<Rightarrow> False | c # _ \<Rightarrow> c = CHR ''/'')"

definition path_join :: "string \<Rightarrow> string \<Rightarrow> string" where
  "path_join a b =
     (if isabs b then b
      else if a = [] \<or> last a = CHR ''/'' then a @ b
      else a @ ''/'' @ b)"

definition isfile :: "filesystem \<Rightarrow> string \<Rightarrow> bool" where
  "isfile f p = (f p = Some RegularFile)"

fun is_directory :: "node option \<Rightarrow> bool" where
  "is_directory (Some (Directory _)) = True"
| "is_directory _ = False"

definition isdir :: "filesystem \<Rightarrow> string \<Rightarrow> bool" where
  "isdir f p = is_directory (f p)"

definition listdir :: "filesystem \<Rightarrow> string \<Rightarrow> oserror + string list" where
  "listdir f p =
     (case f p of
        None \<Rightarrow> Inl ENOENT
      | Some (Directory names) \<Rightarrow> Inr names
      | Some _ \<Rightarrow> Inl ENOTDIR)"

subsection \<open>\<^verbatim>\<open>PackageDownloader\<close>\<close>

record PackageDownloader =
  download_path :: "string option"

text \<open>\<^verbatim>\<open>__init__(self, download_path=None)\<close>\<close>

definition init :: "string option \<Rightarrow> PackageDownloader" where
  "init p = \<lparr>download_path = p\<rparr>"

text \<open>What \<^verbatim>\<open>except OSError\<close> catches.\<close>

fun is_OSError :: "pyerror \<Rightarrow> bool" where
  "is_OSError (OSError e) = True"
| "is_OSError _ = False"

text \<open>
  \<^verbatim>\<open>_make_download_dir\<close>: without a path, a temporary directory is made and adopted (an
  error of \<^verbatim>\<open>mkdtemp\<close> is not caught); with a path, \<^verbatim>\<open>os.makedirs\<close> is tried,
  \<^verbatim>\<open>except OSError: pass\<close> drops every \<^verbatim>\<open>OSError\<close> it raises, and any other exception
  goes on to the caller.
\<close>

definition make_download_dir ::
  "env \<Rightarrow> PackageDownloader \<Rightarrow> world \<Rightarrow> (pyerror + unit) \<times> PackageDownloader \<times> world" where
  "make_download_dir E self w =
     (case download_path self of
        None \<Rightarrow>
          (case mkdtemp E (fs w) of
             (Inl e, f') \<Rightarrow>
               (Inl e, self, w\<lparr>fs := f', io_log := io_log w @ [MkDtemp]\<rparr>)
           | (Inr p, f') \<Rightarrow>
               (Inr (), self\<lparr>download_path := Some p\<rparr>,
                w\<lparr>fs := f', io_log := io_log w @ [MkDtemp]\<rparr>))
      | Some p \<Rightarrow>
          (case makedirs E p (fs w) of
             (Inl e, f') \<Rightarrow>
               (if is_OSError e then Inr () else Inl e, self,
                w\<lparr>fs := f', io_log := io_log w @ [MakeDirs p]\<rparr>)
           | (Inr u, f') \<Rightarrow> (Inr (), self, w\<lparr>fs := f', io_log := io_log w @ [MakeDirs p]\<rparr>)))"

text \<open>\<^verbatim>\<open>_build_args\<close>\<close>

definition pip_command :: "env \<Rightarrow> string" where
  "pip_command E =
     (if version_lt (pip_version E) version_8_0_0 then ''install'' else ''download'')"

definition build_args ::
  "env \<Rightarrow> PackageDownloader \<Rightarrow> string list option \<Rightarrow> string option \<Rightarrow> bool
     \<Rightarrow> pyerror + pyarg list" where
  "build_args E self requirements requirements_file no_use_wheel =
     (let args0 = [PStr (pip_command E), PStr ''-d'', path_arg (download_path self)];
          args1 = (if no_use_wheel then args0 @ [PStr ''--no-use-wheel''] else args0)
      in case requirements of
           Some rs \<Rightarrow> Inr (args1 @ map PStr rs)
         | None \<Rightarrow>
             (case requirements_file of
                Some rf \<Rightarrow> Inr (args1 @ [PStr ''-r'', PStr rf])
              | None \<Rightarrow>
                  Inl (ValueError ''Either requirements or requirements_file must be given.'')))"

text \<open>
  \<^verbatim>\<open>_list_download_dir\<close> is a generator: calling it runs nothing. Its body runs when the
  sequence is consumed, against the file system of that moment. (Without a path Python 2
  raises \<^verbatim>\<open>TypeError\<close>; \<^verbatim>\<open>download\<close> never gets there.)
\<close>

definition list_download_dir :: "PackageDownloader \<Rightarrow> filesystem \<Rightarrow> pyerror + string list" where
  "list_download_dir self f =
     (case download_path self of
        None \<Rightarrow> Inl TypeError
      | Some d \<Rightarrow>
          (case listdir f d of
             Inl e \<Rightarrow> Inl (OSError e)
           | Inr names \<Rightarrow>
               Inr (filter (isfile f) (map (path_join d) names))))"

text \<open>The generator object that \<^verbatim>\<open>download\<close> returns: a suspended \<^verbatim>\<open>_list_download_dir\<close>.\<close>

datatype generator = Listing

fun consume :: "generator \<Rightarrow> PackageDownloader \<Rightarrow> filesystem \<Rightarrow> pyerror + string list" where
  "consume Listing self f = list_download_dir self f"

text \<open>\<^verbatim>\<open>download(self, requirements=None, requirements_file=None, no_use_wheel=False)\<close>\<close>

definition download ::
  "env \<Rightarrow> PackageDownloader \<Rightarrow> world \<Rightarrow> string list option \<Rightarrow> string option \<Rightarrow> bool
     \<Rightarrow> (pyerror + generator) \<times> PackageDownloader \<times> world" where
  "download E self w requirements requirements_file no_use_wheel =
     (case make_download_dir E self w of
        (Inl e, self1, w1) \<Rightarrow> (Inl e, self1, w1)
      | (Inr u, self1, w1) \<Rightarrow>
          (case build_args E self1 requirements requirements_file no_use_wheel of
             Inl e \<Rightarrow> (Inl e, self1, w1)
           | Inr as \<Rightarrow>
               (case pip_main E as (fs w1) of
                  (pip_result, f2) \<Rightarrow>
                    (if pip_result \<noteq> SUCCESS
                     then Inl (PackageDownloadErr_init pip_result as)
                     else Inr Listing,
                     self1,
                     w1\<lparr>fs := f2, io_log := io_log w1 @ [PipMain as]\<rparr>))))"

subsection \<open>Several calls on one instance\<close>

text \<open>The arguments of one \<^verbatim>\<open>download\<close> call, and a run of calls on the same instance.\<close>

record call =
  requirements :: "string list option"
  requirements_file :: "string option"
  no_use_wheel :: bool

fun downloads :: "env \<Rightarrow> call list \<Rightarrow> PackageDownloader \<Rightarrow> world \<Rightarrow> PackageDownloader \<times> world" where
  "downloads E [] self w = (self, w)"
| "downloads E (c # cs) self w =
     (case download E self w (requirements c) (requirements_file c) (no_use_wheel c) of
        (r, self1, w1) \<Rightarrow> downloads E cs self1 w1)"

subsection \<open>A stub environment\<close>

text \<open>
  A pip that always succeeds and writes two archives and a build directory into the
  directory passed with \<^verbatim>\<open>-d\<close>; a \<^verbatim>\<open>mkdtemp\<close> that makes \<^verbatim>\<open>/tmp/tmpq1w2e3\<close>; a
  \<^verbatim>\<open>makedirs\<close> that refuses a path with a NUL byte as Python 2 does and fails on a path
  that exists. Then a pip that fails with status 1 and a \<^verbatim>\<open>makedirs\<close> that is refused
  permission.
\<close>

definition stub_mkdtemp :: "filesystem \<Rightarrow> (pyerror + string) \<times> filesystem" where
  "stub_mkdtemp f = (Inr ''/tmp/tmpq1w2e3'', f(''/tmp/tmpq1w2e3'' \<mapsto> Directory []))"

definition stub_makedirs :: "string \<Rightarrow> filesystem \<Rightarrow> (pyerror + unit) \<times> filesystem" where
  "stub_makedirs p f =
     (if CHR 0x00 \<in> set p then (Inl TypeError, f)
      else case f p of
             Some n \<Rightarrow> (Inl (OSError EEXIST), f)
           | None \<Rightarrow> (Inr (), f(p \<mapsto> Directory [])))"

definition denied_makedirs :: "string \<Rightarrow> filesystem \<Rightarrow> (pyerror + unit) \<times> filesystem" where
  "denied_makedirs p f = (Inl (OSError EACCES), f)"

definition stub_pip_main :: "pyarg list \<Rightarrow> filesystem \<Rightarrow> int \<times> filesystem" where
  "stub_pip_main as f =
     (case as of
        a0 # a1 # PStr d # rest \<Rightarrow>
          (0, f(d \<mapsto> Directory [''mock-1.0.tar.gz'', ''build'', ''requests-1.2.1.tar.gz''],
                path_join d ''mock-1.0.tar.gz'' \<mapsto> RegularFile,
                path_join d ''build'' \<mapsto> Directory [''setup.py''],
                path_join (path_join d ''build'') ''setup.py'' \<mapsto> RegularFile,
                path_join d ''requests-1.2.1.tar.gz'' \<mapsto> RegularFile))
      | _ \<Rightarrow> (2, f))"

definition failing_pip_main :: "pyarg list \<Rightarrow> filesystem \<Rightarrow> int \<times> filesystem" where
  "failing_pip_main as f = (1, f)"

definition stub_env :: "version \<Rightarrow> env" where
  "stub_env v =
     \<lparr>mkdtemp = stub_mkdtemp, makedirs = stub_makedirs, pip_main = stub_pip_main,
      pip_version = v\<rparr>"

definition failing_env :: "version \<Rightarrow> env" where
  "failing_env v =
     \<lparr>mkdtemp = stub_mkdtemp, makedirs = stub_makedirs, pip_main = failing_pip_main,
      pip_version = v\<rparr>"

definition denied_env :: "version \<Rightarrow> env" where
  "denied_env v =
     \<lparr>mkdtemp = stub_mkdtemp, makedirs = denied_makedirs, pip_main = stub_pip_main,
      pip_version = v\<rparr>"

definition empty_world :: world where
  "empty_world = \<lparr>fs = Map.empty, io_log = []\<rparr>"

section \<open>Facts about the model\<close>

subsection \<open>Unfolding sets for evaluation\<close>

lemmas stub_defs =
  stub_env_def failing_env_def denied_env_def stub_mkdtemp_def stub_makedirs_def
  denied_makedirs_def stub_pip_main_def failing_pip_main_def empty_world_def init_def

lemmas version_defs =
  pip_command_def version_lt_def cmpkey_def strip_zeros_def final_release_def version_8_0_0_def

lemmas format_defs =
  PackageDownloadErr_init_def format_d_def format_s_def repr_str_def repr_char_def quote_of_def
  hex2_def Let_def dec_digits.simps [of "Suc 0"] dec_digits.simps [of 1]

lemmas path_defs = path_join_def isabs_def isfile_def isdir_def listdir_def

lemmas download_defs = download_def make_download_dir_def build_args_def SUCCESS_def

subsection \<open>The methods, one by one\<close>

lemma make_download_dir_resolves:
  assumes "make_download_dir E self w = (Inr u, self1, w1)"
  shows "\<exists>d. download_path self1 = Some d"
  using assms by (auto simp: make_download_dir_def split: option.splits prod.splits sum.splits)

lemma make_download_dir_configured:
  assumes "download_path self = Some p"
  shows "make_download_dir E self w =
           (case fst (makedirs E p (fs w)) of
              Inl e \<Rightarrow> if is_OSError e then Inr () else Inl e
            | Inr u \<Rightarrow> Inr (),
            self, w\<lparr>fs := snd (makedirs E p (fs w)), io_log := io_log w @ [MakeDirs p]\<rparr>)"
  using assms by (simp add: make_download_dir_def split: prod.splits sum.splits)



lemma make_download_dir_raises:
  "fst (make_download_dir E self w) = Inl e \<longleftrightarrow>
     (download_path self = None \<and> fst (mkdtemp E (fs w)) = Inl e)
     \<or> (\<exists>p. download_path self = Some p \<and> fst (makedirs E p (fs w)) = Inl e \<and> \<not> is_OSError e)"
  by (auto simp: make_download_dir_def split: option.splits prod.splits sum.splits if_splits)

lemma make_download_dir_log:
  "io_log (snd (snd (make_download_dir E self w))) =
     io_log w @ [case download_path self of None \<Rightarrow> MkDtemp | Some p \<Rightarrow> MakeDirs p]"
  by (simp add: make_download_dir_def split: option.splits prod.splits sum.splits)

lemma download_self:
  "fst (snd (download E self w rq rf nw)) = fst (snd (make_download_dir E self w))"
  by (simp add: download_def split: prod.splits sum.splits)

lemma build_args_shape:
  "build_args E self rq rf nw =
     (if rq = None \<and> rf = None
      then Inl (ValueError ''Either requirements or requirements_file must be given.'')
      else Inr ([PStr (pip_command E), PStr ''-d'', path_arg (download_path self)]
                @ (if nw then [PStr ''--no-use-wheel''] else [])
                @ (case rq of Some rs \<Rightarrow> map PStr rs
                   | None \<Rightarrow> (case rf of Some p \<Rightarrow> [PStr ''-r'', PStr p] | None \<Rightarrow> []))))"
  by (simp add: build_args_def Let_def split: option.splits)

lemma strip_zeros_Cons:
  "strip_zeros (m # r) = (if strip_zeros r = [] \<and> m = 0 then [] else m # strip_zeros r)"
  by (auto simp: strip_zeros_def dropWhile_append dropWhile_eq_Nil_conv)

lemma version_lt_final:
  assumes "epoch v = 0" "pre v = None" "post v = None" "dev v = None" "release v = m # r"
  shows "version_lt v version_8_0_0 \<longleftrightarrow> m < 8"
proof -
  have k8: "cmpkey version_8_0_0 = (0, [8], PosInf, NegInf, PosInf)"
    by (simp add: cmpkey_def version_8_0_0_def final_release_def strip_zeros_def)
  have kv: "cmpkey v = (0, strip_zeros (m # r), PosInf, NegInf, PosInf)"
    using assms by (simp add: cmpkey_def)
  show ?thesis
    unfolding version_lt_def k8 kv
    by (cases "strip_zeros r") (auto simp: strip_zeros_Cons)
qed

subsection \<open>Paths and the listing\<close>

lemma isabs_path_join: "isabs (path_join a b) \<longleftrightarrow> isabs b \<or> isabs a"
  by (cases a) (simp_all add: path_join_def isabs_def)

lemma path_join_relative:
  "\<not> isabs b \<Longrightarrow>
     path_join a b = (if a = [] \<or> last a = CHR ''/'' then a else a @ ''/'') @ b"
  by (simp add: path_join_def)

lemma inj_on_path_join:
  assumes "\<forall>n\<in>S. \<not> isabs n"
  shows "inj_on (path_join d) S"
proof (rule inj_onI)
  fix x y assume "x \<in> S" "y \<in> S" and eq: "path_join d x = path_join d y"
  then have "\<not> isabs x" "\<not> isabs y" using assms by blast+
  with eq show "x = y" by (simp add: path_join_relative)
qed

lemma list_download_dir_listing:
  assumes "download_path self = Some d" and "f d = Some (Directory names)"
  shows "list_download_dir self f =
           Inr (map (path_join d) (filter (\<lambda>n. isfile f (path_join d n)) names))"
  using assms by (simp add: list_download_dir_def listdir_def filter_map comp_def)

lemma isfile_not_isdir: "isfile f p \<Longrightarrow> \<not> isdir f p"
  by (simp add: isfile_def isdir_def)


subsection \<open>The argument list\<close>

lemma build_args_nonempty:
  assumes "build_args E self rq rf nw = Inr as"
  shows "as \<noteq> [] \<and> hd as = PStr (pip_command E)"
  using assms by (auto simp: build_args_shape split: if_splits)

lemma pip_command_cases: "pip_command E = ''install'' \<or> pip_command E = ''download''"
  by (simp add: pip_command_def)

lemma pip_command_not_r: "pip_command E \<noteq> ''-r''"
  using pip_command_cases [of E] by auto

lemma version_lt_examples:
  "version_lt (final_release [7, 1, 2]) version_8_0_0"
  "\<not> version_lt (final_release [8]) version_8_0_0"
  "\<not> version_lt (final_release [8, 0, 0]) version_8_0_0"
  "\<not> version_lt (final_release [9, 0, 3]) version_8_0_0"
  "version_lt ((final_release [8, 0, 0])\<lparr>pre := Some (RC, 1)\<rparr>) version_8_0_0"
  "version_lt ((final_release [8, 0, 0])\<lparr>dev := Some 0\<rparr>) version_8_0_0"
  "\<not> version_lt ((final_release [8, 0, 0])\<lparr>post := Some 1\<rparr>) version_8_0_0"
  by (simp_all add: version_defs)

subsection \<open>The destination of an instance\<close>

lemma download_error_cases:
  assumes "fst (download E self w rq rf nw) = Inl e"
  shows "fst (make_download_dir E self w) = Inl e
    \<or> (rq = None \<and> rf = None
        \<and> e = ValueError ''Either requirements or requirements_file must be given.'')
    \<or> (\<exists>st as. e = PackageDownloadErr_init st as)"
  using assms
  by (auto simp: download_def build_args_shape split: prod.splits sum.splits if_splits)


lemma download_keeps_path:
  assumes "download_path self = Some d"
  shows "download_path (fst (snd (download E self w rq rf nw))) = Some d"
  using assms by (simp add: download_self make_download_dir_configured)

lemma make_download_dir_keeps_path:
  assumes "download_path self = Some d"
  shows "download_path (fst (snd (make_download_dir E self w))) = Some d"
  using assms by (simp add: make_download_dir_configured)

lemma downloads_keep_path:
  assumes "download_path self = Some d"
  shows "download_path (fst (downloads E cs self w)) = Some d"
  using assms
proof (induction cs arbitrary: self w)
  case Nil
  then show ?case by simp
next
  case (Cons c cs)
  obtain r self1 w1 where
    s: "download E self w (requirements c) (requirements_file c) (no_use_wheel c) = (r, self1, w1)"
    by (cases "download E self w (requirements c) (requirements_file c) (no_use_wheel c)")
  have "download_path self1 = Some d"
    using download_keeps_path [OF Cons.prems, of E w "requirements c" "requirements_file c"
        "no_use_wheel c"] s by simp
  from Cons.IH [OF this] s show ?case by simp
qed

lemma download_adopts_tempdir:
  assumes "download_path self = None" and "mkdtemp E (fs w) = (Inr p, f')"
  shows "download_path (fst (snd (download E self w rq rf nw))) = Some p"
  using assms by (simp add: download_self make_download_dir_def)

section \<open>The claims\<close>

text \<open>
  C1. When the tool, invoked with the argument list \<open>A\<close>, returns a status \<open>S\<close> other
  than \<^verbatim>\<open>SUCCESS\<close>, \<^verbatim>\<open>download\<close> raises \<^verbatim>\<open>PackageDownloadErr\<close> with status \<open>S\<close>,
  arguments \<open>A\<close> and the message "package failed download, exit S. Arguments: A"
  (\<^verbatim>\<open>%d\<close> of the status, \<^verbatim>\<open>%s\<close> of the list); it returns no sequence.
\<close>

theorem download_failure_raises:
  assumes "make_download_dir E self w = (Inr u, self1, w1)"
    and "build_args E self1 rq rf nw = Inr A"
    and "pip_main E A (fs w1) = (S, f2)"
    and "S \<noteq> SUCCESS"
  shows "download E self w rq rf nw =
           (Inl (PackageDownloadErr S A
                  (''package failed download, exit '' @ format_d S @ ''. Arguments: '' @ format_s A)),
            self1, w1\<lparr>fs := f2, io_log := io_log w1 @ [PipMain A]\<rparr>)"
  using assms by (simp add: download_def PackageDownloadErr_init_def)

theorem download_failure_raises_witness:
  "fst (pip_main (failing_env (final_release [8, 0, 0]))
         [PStr ''download'', PStr ''-d'', PStr ''/tmp/tmpq1w2e3'', PStr ''mock'']
         (Map.empty(''/tmp/tmpq1w2e3'' \<mapsto> Directory []))) = 1
   \<and> (1::int) \<noteq> SUCCESS
   \<and> fst (download (failing_env (final_release [8, 0, 0])) (init None) empty_world
            (Some [''mock'']) None False) =
       Inl (PackageDownloadErr 1
             [PStr ''download'', PStr ''-d'', PStr ''/tmp/tmpq1w2e3'', PStr ''mock'']
             ''package failed download, exit 1. Arguments: ['download', '-d', '/tmp/tmpq1w2e3', 'mock']'')"
proof -
  let ?E = "failing_env (final_release [8, 0, 0])"
  let ?A = "[PStr ''download'', PStr ''-d'', PStr ''/tmp/tmpq1w2e3'', PStr ''mock'']"
  let ?s1 = "\<lparr>download_path = Some ''/tmp/tmpq1w2e3''\<rparr>"
  let ?w1 = "\<lparr>fs = Map.empty(''/tmp/tmpq1w2e3'' \<mapsto> Directory []), io_log = [MkDtemp]\<rparr>"
  have h1: "make_download_dir ?E (init None) empty_world = (Inr (), ?s1, ?w1)"
    by (simp add: make_download_dir_def stub_defs)
  have h2: "build_args ?E ?s1 (Some [''mock'']) None False = Inr ?A"
    by (simp add: build_args_def stub_defs version_defs)
  have h3: "pip_main ?E ?A (fs ?w1) = (1, fs ?w1)"
    by (simp add: stub_defs)
  have h4: "(1::int) \<noteq> SUCCESS"
    by (simp add: SUCCESS_def)
  have msg: "''package failed download, exit '' @ format_d 1 @ ''. Arguments: '' @ format_s ?A =
      ''package failed download, exit 1. Arguments: ['download', '-d', '/tmp/tmpq1w2e3', 'mock']''"
    by (simp add: format_defs)
  show ?thesis
    using download_failure_raises [OF h1 h2 h3 h4] h3 h4 msg by simp
qed

text \<open>
  C2 (as amended). When both the requirements and the requirements file are omitted,
  \<^verbatim>\<open>download\<close> fails and pip is not invoked: the one event it adds to the log is the
  directory step, which has already run (\<^verbatim>\<open>mkdtemp\<close> and the adoption of its directory
  when no path is configured, one \<^verbatim>\<open>makedirs\<close> otherwise). The error is the
  \<^verbatim>\<open>ValueError\<close> of \<^verbatim>\<open>_build_args\<close> when the directory step returned, and otherwise
  what the directory step raised: an error of \<^verbatim>\<open>mkdtemp\<close>, or an error of
  \<^verbatim>\<open>makedirs\<close> that is not an \<^verbatim>\<open>OSError\<close>.
\<close>

theorem download_without_request:
  assumes "download E self w None None nw = (r, self1, w1)"
  shows "(\<exists>e. r = Inl e)
    \<and> r = (case fst (make_download_dir E self w) of
             Inl e \<Rightarrow> Inl e
           | Inr u \<Rightarrow> Inl (ValueError ''Either requirements or requirements_file must be given.''))
    \<and> (r = Inl (ValueError ''Either requirements or requirements_file must be given.'')
         \<or> (\<exists>e. r = Inl e \<and> download_path self = None \<and> fst (mkdtemp E (fs w)) = Inl e)
         \<or> (\<exists>e p. r = Inl e \<and> download_path self = Some p
                   \<and> fst (makedirs E p (fs w)) = Inl e \<and> \<not> is_OSError e))
    \<and> (self1, w1) = snd (make_download_dir E self w)
    \<and> io_log w1 =
        io_log w @ [case download_path self of None \<Rightarrow> MkDtemp | Some p \<Rightarrow> MakeDirs p]"
proof (cases "make_download_dir E self w")
  case (fields m s x)
  have log: "io_log x =
      io_log w @ [case download_path self of None \<Rightarrow> MkDtemp | Some p \<Rightarrow> MakeDirs p]"
    using make_download_dir_log [of E self w] fields by simp
  show ?thesis
  proof (cases m)
    case (Inl e)
    with fields have res: "r = Inl e" "self1 = s" "w1 = x"
      using assms by (simp_all add: download_def)
    from Inl fields have "fst (make_download_dir E self w) = Inl e"
      by simp
    then have "(download_path self = None \<and> fst (mkdtemp E (fs w)) = Inl e)
        \<or> (\<exists>p. download_path self = Some p \<and> fst (makedirs E p (fs w)) = Inl e
                 \<and> \<not> is_OSError e)"
      by (simp only: make_download_dir_raises)
    with res fields Inl log show ?thesis by auto
  next
    case (Inr u)
    with fields have "r = Inl (ValueError ''Either requirements or requirements_file must be given.'')"
      "self1 = s" "w1 = x"
      using assms by (simp_all add: download_def build_args_shape)
    with fields Inr log show ?thesis by auto
  qed
qed

theorem download_without_request_witness:
  "fst (download (stub_env (final_release [7, 1, 2])) (init (Some ''packages'')) empty_world
         None None True) =
     Inl (ValueError ''Either requirements or requirements_file must be given.'')
   \<and> io_log (snd (snd (download (stub_env (final_release [7, 1, 2])) (init (Some ''packages''))
         empty_world None None True))) = [MakeDirs ''packages'']
   \<and> fst (download (stub_env (final_release [7, 1, 2])) (init (Some [CHR ''a'', CHR 0x00]))
         empty_world None None True) = Inl TypeError
   \<and> io_log (snd (snd (download (stub_env (final_release [7, 1, 2]))
         (init (Some [CHR ''a'', CHR 0x00])) empty_world None None True))) =
       [MakeDirs [CHR ''a'', CHR 0x00]]"
proof -
  let ?E = "stub_env (final_release [7, 1, 2])"
  let ?s = "init (Some ''packages'')"
  let ?n = "init (Some [CHR ''a'', CHR 0x00])"
  obtain r s1 w1 where d: "download ?E ?s empty_world None None True = (r, s1, w1)"
    by (cases "download ?E ?s empty_world None None True")
  obtain r' s1' w1' where d': "download ?E ?n empty_world None None True = (r', s1', w1')"
    by (cases "download ?E ?n empty_world None None True")
  have m: "fst (make_download_dir ?E ?s empty_world) = Inr ()"
    by (simp add: make_download_dir_def stub_defs)
  have m': "fst (make_download_dir ?E ?n empty_world) = Inl TypeError"
    by (simp add: make_download_dir_def stub_defs)
  from download_without_request [OF d] m
  have "r = Inl (ValueError ''Either requirements or requirements_file must be given.'')"
    and "io_log w1 = io_log empty_world @ [MakeDirs ''packages'']"
    by (simp_all add: init_def)
  moreover from download_without_request [OF d'] m'
  have "r' = Inl TypeError"
    and "io_log w1' = io_log empty_world @ [MakeDirs [CHR ''a'', CHR 0x00]]"
    by (simp_all add: init_def)
  ultimately show ?thesis using d d' by (simp add: empty_world_def)
qed

text \<open>
  The claim as stated promises no file-system effect. On an instance without a path the
  call ends with the \<^verbatim>\<open>ValueError\<close>, and by then the temporary directory exists and is
  adopted.
\<close>

theorem download_without_request_counterexample:
  "fst (download (stub_env (final_release [7, 1, 2])) (init None) empty_world None None False) =
     Inl (ValueError ''Either requirements or requirements_file must be given.'')
   \<and> fs empty_world ''/tmp/tmpq1w2e3'' = None
   \<and> fs (snd (snd (download (stub_env (final_release [7, 1, 2])) (init None) empty_world
         None None False))) ''/tmp/tmpq1w2e3'' = Some (Directory [])
   \<and> download_path (init None) = None
   \<and> download_path (fst (snd (download (stub_env (final_release [7, 1, 2])) (init None)
         empty_world None None False))) = Some ''/tmp/tmpq1w2e3''
   \<and> io_log empty_world = []
   \<and> io_log (snd (snd (download (stub_env (final_release [7, 1, 2])) (init None) empty_world
         None None False))) = [MkDtemp]"
  by (simp add: download_def make_download_dir_def build_args_def stub_defs)


text \<open>
  C3 (as amended). After a \<^verbatim>\<open>download\<close> that succeeded, consuming the returned sequence
  against a destination directory that lists \<open>names\<close> yields, in listing order, the
  destination path joined with each name that resolves to a regular file: as many paths as
  there are such names, every one a regular file, none a subdirectory, nothing from below
  the direct children, and no path twice when the listing has no name twice. The paths are
  absolute when the destination path is.
\<close>

theorem listing_yields_regular_files:
  assumes "download E self0 w0 rq rf nw = (Inr g, self, w)"
    and "download_path self = Some d"
    and "f d = Some (Directory names)"
  shows "\<exists>paths. consume g self f = Inr paths
    \<and> paths = map (path_join d) (filter (\<lambda>n. isfile f (path_join d n)) names)
    \<and> length paths = length (filter (\<lambda>n. isfile f (path_join d n)) names)
    \<and> (\<forall>n\<in>set names. isdir f (path_join d n) \<longrightarrow> path_join d n \<notin> set paths)
    \<and> (\<forall>p\<in>set paths. isfile f p \<and> (isabs d \<longrightarrow> isabs p))
    \<and> (distinct names \<and> (\<forall>n\<in>set names. \<not> isabs n) \<longrightarrow> distinct paths)"
proof -
  define paths where "paths = map (path_join d) (filter (\<lambda>n. isfile f (path_join d n)) names)"
  have g: "g = Listing" by (cases g) simp
  have run: "consume g self f = Inr paths"
    using assms(2,3) g by (simp add: list_download_dir_listing paths_def)
  have len: "length paths = length (filter (\<lambda>n. isfile f (path_join d n)) names)"
    by (simp add: paths_def)
  have files: "\<forall>p\<in>set paths. isfile f p \<and> (isabs d \<longrightarrow> isabs p)"
    unfolding paths_def by (auto simp: isabs_path_join)
  have nodirs: "\<forall>n\<in>set names. isdir f (path_join d n) \<longrightarrow> path_join d n \<notin> set paths"
    using files isfile_not_isdir by blast
  have dist: "distinct names \<and> (\<forall>n\<in>set names. \<not> isabs n) \<longrightarrow> distinct paths"
  proof
    assume a: "distinct names \<and> (\<forall>n\<in>set names. \<not> isabs n)"
    then have "inj_on (path_join d) (set (filter (\<lambda>n. isfile f (path_join d n)) names))"
      by (intro inj_on_path_join) simp
    with a show "distinct paths" by (simp add: paths_def distinct_map)
  qed
  from run len files nodirs dist paths_def show ?thesis by blast
qed

theorem listing_yields_regular_files_witness:
  "fst (download (stub_env (final_release [7, 1, 2])) (init None) empty_world
         (Some [''mock'', ''requests==1.2.1'']) None False) = Inr Listing
   \<and> consume Listing
        (fst (snd (download (stub_env (final_release [7, 1, 2])) (init None) empty_world
           (Some [''mock'', ''requests==1.2.1'']) None False)))
        (fs (snd (snd (download (stub_env (final_release [7, 1, 2])) (init None) empty_world
           (Some [''mock'', ''requests==1.2.1'']) None False)))) =
       Inr [''/tmp/tmpq1w2e3/mock-1.0.tar.gz'', ''/tmp/tmpq1w2e3/requests-1.2.1.tar.gz'']"
proof -
  define D where "D = download (stub_env (final_release [7, 1, 2])) (init None) empty_world
         (Some [''mock'', ''requests==1.2.1'']) None False"
  define f where "f = fs (snd (snd D))"
  define names where "names = [''mock-1.0.tar.gz'', ''build'', ''requests-1.2.1.tar.gz'']"
  have r: "fst D = Inr Listing"
    by (simp add: D_def download_defs stub_defs)
  have p: "download_path (fst (snd D)) = Some ''/tmp/tmpq1w2e3''"
    by (simp add: D_def download_defs stub_defs)
  have l: "f ''/tmp/tmpq1w2e3'' = Some (Directory names)"
    by (simp add: f_def names_def D_def download_defs stub_defs path_defs)
  have f1: "isfile f ''/tmp/tmpq1w2e3/mock-1.0.tar.gz''"
    by (simp add: f_def D_def download_defs stub_defs path_defs)
  have f2: "\<not> isfile f ''/tmp/tmpq1w2e3/build''"
    by (simp add: f_def D_def download_defs stub_defs path_defs)
  have f3: "isfile f ''/tmp/tmpq1w2e3/requests-1.2.1.tar.gz''"
    by (simp add: f_def D_def download_defs stub_defs path_defs)
  have j1: "path_join ''/tmp/tmpq1w2e3'' ''mock-1.0.tar.gz'' = ''/tmp/tmpq1w2e3/mock-1.0.tar.gz''"
    by (simp add: path_defs)
  have j2: "path_join ''/tmp/tmpq1w2e3'' ''build'' = ''/tmp/tmpq1w2e3/build''"
    by (simp add: path_defs)
  have j3: "path_join ''/tmp/tmpq1w2e3'' ''requests-1.2.1.tar.gz'' =
      ''/tmp/tmpq1w2e3/requests-1.2.1.tar.gz''"
    by (simp add: path_defs)
  have d0: "D = (Inr Listing, fst (snd D), snd (snd D))"
    using r by (simp add: prod_eq_iff)
  have d: "download (stub_env (final_release [7, 1, 2])) (init None) empty_world
         (Some [''mock'', ''requests==1.2.1'']) None False = (Inr Listing, fst (snd D), snd (snd D))"
    unfolding D_def [symmetric] by (rule d0)
  obtain paths where c: "consume Listing (fst (snd D)) f = Inr paths"
    and e: "paths = map (path_join ''/tmp/tmpq1w2e3'')
                     (filter (\<lambda>n. isfile f (path_join ''/tmp/tmpq1w2e3'' n)) names)"
    using listing_yields_regular_files [where f = f and d = "''/tmp/tmpq1w2e3''", OF d p l]
    by (elim exE conjE)
  have "paths = [''/tmp/tmpq1w2e3/mock-1.0.tar.gz'', ''/tmp/tmpq1w2e3/requests-1.2.1.tar.gz'']"
    unfolding e names_def by (simp only: list.map filter.simps j1 j2 j3 f1 f2 f3 if_True if_False)
  with c have "consume Listing (fst (snd D)) f =
      Inr [''/tmp/tmpq1w2e3/mock-1.0.tar.gz'', ''/tmp/tmpq1w2e3/requests-1.2.1.tar.gz'']"
    by (simp only:)
  then show ?thesis unfolding f_def D_def using r [unfolded D_def] by (intro conjI)
qed

text \<open>
  The claim as stated makes every path absolute. With the relative destination
  \<^verbatim>\<open>packages\<close> the paths are relative.
\<close>

theorem listing_not_absolute_counterexample:
  "fst (download (stub_env (final_release [9, 0, 1])) (init (Some ''packages'')) empty_world
         (Some [''mock'', ''requests==1.2.1'']) None False) = Inr Listing
   \<and> consume Listing
        (fst (snd (download (stub_env (final_release [9, 0, 1])) (init (Some ''packages''))
           empty_world (Some [''mock'', ''requests==1.2.1'']) None False)))
        (fs (snd (snd (download (stub_env (final_release [9, 0, 1])) (init (Some ''packages''))
           empty_world (Some [''mock'', ''requests==1.2.1'']) None False)))) =
       Inr [''packages/mock-1.0.tar.gz'', ''packages/requests-1.2.1.tar.gz'']
   \<and> \<not> isabs ''packages/mock-1.0.tar.gz''
   \<and> \<not> isabs ''packages/requests-1.2.1.tar.gz''"
proof -
  define D where "D = download (stub_env (final_release [9, 0, 1])) (init (Some ''packages''))
         empty_world (Some [''mock'', ''requests==1.2.1'']) None False"
  define f where "f = fs (snd (snd D))"
  define names where "names = [''mock-1.0.tar.gz'', ''build'', ''requests-1.2.1.tar.gz'']"
  have r: "fst D = Inr Listing"
    by (simp add: D_def download_defs stub_defs)
  have p: "download_path (fst (snd D)) = Some ''packages''"
    by (simp add: D_def download_defs stub_defs)
  have l: "f ''packages'' = Some (Directory names)"
    by (simp add: f_def names_def D_def download_defs stub_defs path_defs)
  have f1: "isfile f ''packages/mock-1.0.tar.gz''"
    by (simp add: f_def D_def download_defs stub_defs path_defs)
  have f2: "\<not> isfile f ''packages/build''"
    by (simp add: f_def D_def download_defs stub_defs path_defs)
  have f3: "isfile f ''packages/requests-1.2.1.tar.gz''"
    by (simp add: f_def D_def download_defs stub_defs path_defs)
  have j1: "path_join ''packages'' ''mock-1.0.tar.gz'' = ''packages/mock-1.0.tar.gz''"
    by (simp add: path_defs)
  have j2: "path_join ''packages'' ''build'' = ''packages/build''"
    by (simp add: path_defs)
  have j3: "path_join ''packages'' ''requests-1.2.1.tar.gz'' = ''packages/requests-1.2.1.tar.gz''"
    by (simp add: path_defs)
  have "consume Listing (fst (snd D)) f =
      Inr (map (path_join ''packages'')
            (filter (\<lambda>n. isfile f (path_join ''packages'' n)) names))"
    using p l by (simp add: list_download_dir_listing)
  also have "map (path_join ''packages'')
            (filter (\<lambda>n. isfile f (path_join ''packages'' n)) names) =
      [''packages/mock-1.0.tar.gz'', ''packages/requests-1.2.1.tar.gz'']"
    unfolding names_def by (simp only: list.map filter.simps j1 j2 j3 f1 f2 f3 if_True if_False)
  finally have c: "consume Listing (fst (snd D)) f =
      Inr [''packages/mock-1.0.tar.gz'', ''packages/requests-1.2.1.tar.gz'']" .
  have a1: "\<not> isabs ''packages/mock-1.0.tar.gz''" by (simp add: isabs_def)
  have a2: "\<not> isabs ''packages/requests-1.2.1.tar.gz''" by (simp add: isabs_def)
  from c r a1 a2 show ?thesis unfolding f_def D_def by (intro conjI)
qed

text \<open>
  C4. Once the directory step has returned and a request is given, \<^verbatim>\<open>download\<close> invokes
  pip with, in order: the subcommand, \<^verbatim>\<open>-d\<close> and the destination directory, then
  \<^verbatim>\<open>--no-use-wheel\<close> exactly when \<^verbatim>\<open>no_use_wheel\<close> is true, then either the requirements
  as they are or \<^verbatim>\<open>-r\<close> and the requirements file.
\<close>

theorem download_argument_order:
  assumes "make_download_dir E self w = (Inr u, self1, w1)"
    and "rq \<noteq> None \<or> rf \<noteq> None"
  shows "\<exists>d. download_path self1 = Some d
    \<and> build_args E self1 rq rf nw =
        Inr ([PStr (pip_command E), PStr ''-d'', PStr d]
             @ (if nw then [PStr ''--no-use-wheel''] else [])
             @ (case rq of Some rs \<Rightarrow> map PStr rs
                | None \<Rightarrow> (case rf of Some p \<Rightarrow> [PStr ''-r'', PStr p] | None \<Rightarrow> [])))
    \<and> io_log (snd (snd (download E self w rq rf nw))) =
        io_log w1 @
        [PipMain ([PStr (pip_command E), PStr ''-d'', PStr d]
             @ (if nw then [PStr ''--no-use-wheel''] else [])
             @ (case rq of Some rs \<Rightarrow> map PStr rs
                | None \<Rightarrow> (case rf of Some p \<Rightarrow> [PStr ''-r'', PStr p] | None \<Rightarrow> [])))]"
proof -
  from make_download_dir_resolves [OF assms(1)]
  obtain d where d: "download_path self1 = Some d" ..
  define as where "as = [PStr (pip_command E), PStr ''-d'', PStr d]
             @ (if nw then [PStr ''--no-use-wheel''] else [])
             @ (case rq of Some rs \<Rightarrow> map PStr rs
                | None \<Rightarrow> (case rf of Some p \<Rightarrow> [PStr ''-r'', PStr p] | None \<Rightarrow> []))"
  have b: "build_args E self1 rq rf nw = Inr as"
    using assms(2) d by (simp add: build_args_shape as_def)
  obtain st f2 where pm: "pip_main E as (fs w1) = (st, f2)"
    by (cases "pip_main E as (fs w1)")
  have "io_log (snd (snd (download E self w rq rf nw))) = io_log w1 @ [PipMain as]"
    by (simp add: download_def assms(1) b pm)
  with d b show ?thesis unfolding as_def by blast
qed

theorem download_argument_order_witness:
  "io_log (snd (snd (download (stub_env (final_release [9, 0, 3])) (init (Some ''packages''))
      empty_world None (Some ''requirements.txt'') True))) =
     [MakeDirs ''packages'',
      PipMain [PStr ''download'', PStr ''-d'', PStr ''packages'', PStr ''--no-use-wheel'',
               PStr ''-r'', PStr ''requirements.txt'']]"
proof -
  let ?E = "stub_env (final_release [9, 0, 3])"
  let ?s = "init (Some ''packages'')"
  let ?w1 = "empty_world\<lparr>fs := snd (makedirs ?E ''packages'' (fs empty_world)),
                          io_log := io_log empty_world @ [MakeDirs ''packages'']\<rparr>"
  have p: "download_path ?s = Some ''packages''"
    by (simp add: init_def)
  have k: "fst (makedirs ?E ''packages'' (fs empty_world)) = Inr ()"
    by (simp add: stub_defs)
  have m: "make_download_dir ?E ?s empty_world = (Inr (), ?s, ?w1)"
    unfolding make_download_dir_configured [OF p] k by simp
  have c: "pip_command ?E = ''download''"
    by (simp add: version_defs stub_defs)
  have q: "(None :: string list option) \<noteq> None \<or> Some ''requirements.txt'' \<noteq> None"
    by simp
  from download_argument_order [OF m q, of True]
  show ?thesis by (simp add: c init_def empty_world_def)
qed

text \<open>
  C5. The first element of the argument list is \<^verbatim>\<open>install\<close> when the version of pip is
  below 8.0.0 in the order of \<^verbatim>\<open>packaging.version\<close>, and \<^verbatim>\<open>download\<close> otherwise. For a
  final release that is: \<^verbatim>\<open>install\<close> exactly when the major number is below 8.
\<close>

theorem subcommand_selected_by_version:
  assumes "build_args E self rq rf nw = Inr as"
  shows "as \<noteq> []
    \<and> hd as = PStr (if version_lt (pip_version E) version_8_0_0 then ''install'' else ''download'')
    \<and> (epoch (pip_version E) = 0 \<and> pre (pip_version E) = None \<and> post (pip_version E) = None
         \<and> dev (pip_version E) = None \<and> release (pip_version E) \<noteq> []
        \<longrightarrow> (hd as = PStr ''install'' \<longleftrightarrow> hd (release (pip_version E)) < 8)
          \<and> (hd as = PStr ''download'' \<longleftrightarrow> 8 \<le> hd (release (pip_version E))))"
proof -
  have h: "as \<noteq> []" "hd as = PStr (pip_command E)"
    using build_args_nonempty [OF assms] by simp_all
  have fin: "version_lt (pip_version E) version_8_0_0 \<longleftrightarrow> hd (release (pip_version E)) < 8"
    if "epoch (pip_version E) = 0" "pre (pip_version E) = None" "post (pip_version E) = None"
       "dev (pip_version E) = None" "release (pip_version E) \<noteq> []"
  proof -
    from that(5) obtain m r where "release (pip_version E) = m # r"
      by (cases "release (pip_version E)") auto
    with version_lt_final [OF that(1-4) this] show ?thesis by simp
  qed
  show ?thesis
    using h fin by (auto simp: pip_command_def)
qed

theorem subcommand_selected_by_version_witness:
  "hd [PStr ''install'', PStr ''-d'', PStr ''packages'', PStr ''mock''] = PStr ''install''
   \<and> build_args (stub_env (final_release [7, 1, 2])) (init (Some ''packages''))
        (Some [''mock'']) None False =
       Inr [PStr ''install'', PStr ''-d'', PStr ''packages'', PStr ''mock'']
   \<and> hd (release (final_release [7, 1, 2])) < (8::nat)"
proof -
  let ?E = "stub_env (final_release [7, 1, 2])"
  let ?as = "[PStr ''install'', PStr ''-d'', PStr ''packages'', PStr ''mock'']"
  have b: "build_args ?E (init (Some ''packages'')) (Some [''mock'']) None False = Inr ?as"
    by (simp add: build_args_def version_defs stub_defs)
  have v: "epoch (pip_version ?E) = 0 \<and> pre (pip_version ?E) = None
      \<and> post (pip_version ?E) = None \<and> dev (pip_version ?E) = None
      \<and> release (pip_version ?E) \<noteq> []"
    by (simp add: stub_defs final_release_def)
  from subcommand_selected_by_version [OF b] v
  have "hd ?as = PStr ''install'' \<longleftrightarrow> hd (release (pip_version ?E)) < 8"
    by blast
  moreover have "hd (release (pip_version ?E)) = hd (release (final_release [7, 1, 2]))"
    by (simp add: stub_defs)
  moreover have "hd ?as = PStr ''install''" by simp
  ultimately show ?thesis using b by simp
qed




text \<open>
  C7. Once an instance has a destination directory, configured or adopted, no method
  changes it: not the directory step, not a \<^verbatim>\<open>download\<close> call whatever its outcome, not
  any run of further calls.
\<close>

theorem destination_never_changes:
  assumes "download_path self = Some d"
  shows "download_path (fst (snd (make_download_dir E self w))) = Some d
    \<and> download_path (fst (snd (download E self w rq rf nw))) = Some d
    \<and> download_path (fst (downloads E cs self w)) = Some d"
  using make_download_dir_keeps_path [OF assms] download_keeps_path [OF assms]
    downloads_keep_path [OF assms] by simp

theorem destination_never_changes_witness:
  "download_path (init None) = None
   \<and> download_path (fst (snd (download (stub_env (final_release [7, 1, 2])) (init None)
        empty_world (Some [''mock'']) None False))) = Some ''/tmp/tmpq1w2e3''
   \<and> download_path (fst (downloads (stub_env (final_release [7, 1, 2]))
        [\<lparr>requirements = None, requirements_file = Some ''requirements.txt'',
           no_use_wheel = True\<rparr>,
         \<lparr>requirements = None, requirements_file = None, no_use_wheel = False\<rparr>]
        (fst (snd (download (stub_env (final_release [7, 1, 2])) (init None)
           empty_world (Some [''mock'']) None False)))
        (snd (snd (download (stub_env (final_release [7, 1, 2])) (init None)
           empty_world (Some [''mock'']) None False))))) = Some ''/tmp/tmpq1w2e3''"
proof -
  define D where "D = download (stub_env (final_release [7, 1, 2])) (init None)
        empty_world (Some [''mock'']) None False"
  have n: "download_path (init None) = None"
    by (simp add: init_def)
  have a: "download_path (fst (snd D)) = Some ''/tmp/tmpq1w2e3''"
    unfolding D_def
    by (rule download_adopts_tempdir [OF n, where f' = "[''/tmp/tmpq1w2e3'' \<mapsto> Directory []]"])
       (simp add: stub_defs)
  from destination_never_changes [OF a] n a show ?thesis
    unfolding D_def by blast
qed

text \<open>
  C8. With both the requirements and a requirements file given, \<^verbatim>\<open>_build_args\<close> raises
  nothing: the requirements are appended, and the requirements file is ignored, so the call
  behaves as if it had not been given. \<^verbatim>\<open>-r\<close> is in the list only as the destination
  path or as one of the requirements. A \<^verbatim>\<open>download\<close> that fails then fails with what
  the directory step raised or with \<^verbatim>\<open>PackageDownloadErr\<close>.
\<close>

theorem requirements_take_precedence:
  "build_args E self (Some rs) (Some rf) nw =
     Inr ([PStr (pip_command E), PStr ''-d'', path_arg (download_path self)]
          @ (if nw then [PStr ''--no-use-wheel''] else []) @ map PStr rs)
   \<and> build_args E self (Some rs) (Some rf) nw = build_args E self (Some rs) None nw
   \<and> download E self w (Some rs) (Some rf) nw = download E self w (Some rs) None nw
   \<and> (\<forall>e. fst (download E self w (Some rs) (Some rf) nw) = Inl e \<longrightarrow>
         fst (make_download_dir E self w) = Inl e \<or> (\<exists>st as. e = PackageDownloadErr_init st as))
   \<and> (\<forall>u m. fst (make_download_dir E self w) = Inr u \<longrightarrow>
         fst (download E self w (Some rs) (Some rf) nw) \<noteq> Inl (ValueError m))
   \<and> (\<forall>as. build_args E self (Some rs) (Some rf) nw = Inr as \<longrightarrow>
         (PStr ''-r'' \<in> set as \<longleftrightarrow> download_path self = Some ''-r'' \<or> ''-r'' \<in> set rs))"
proof -
  have b: "build_args E self (Some rs) (Some rf) nw =
     Inr ([PStr (pip_command E), PStr ''-d'', path_arg (download_path self)]
          @ (if nw then [PStr ''--no-use-wheel''] else []) @ map PStr rs)"
    by (simp add: build_args_shape)
  have same: "\<And>s. build_args E s (Some rs) (Some rf) nw = build_args E s (Some rs) None nw"
    by (simp add: build_args_shape)
  have dl: "download E self w (Some rs) (Some rf) nw = download E self w (Some rs) None nw"
    unfolding download_def same by (rule refl)
  have er: "fst (make_download_dir E self w) = Inl e \<or> (\<exists>st as. e = PackageDownloadErr_init st as)"
    if "fst (download E self w (Some rs) (Some rf) nw) = Inl e" for e
    using download_error_cases [OF that] by simp
  have nv: "fst (download E self w (Some rs) (Some rf) nw) \<noteq> Inl (ValueError m)"
    if "fst (make_download_dir E self w) = Inr u" for u m
    using er [of "ValueError m"] that by (auto simp: PackageDownloadErr_init_def)
  have r: "PStr ''-r'' \<in> set ([PStr (pip_command E), PStr ''-d'', path_arg (download_path self)]
          @ (if nw then [PStr ''--no-use-wheel''] else []) @ map PStr rs)
        \<longleftrightarrow> download_path self = Some ''-r'' \<or> ''-r'' \<in> set rs"
    using pip_command_not_r [of E] by (cases "download_path self") auto
  have c4: "\<forall>e. fst (download E self w (Some rs) (Some rf) nw) = Inl e \<longrightarrow>
         fst (make_download_dir E self w) = Inl e \<or> (\<exists>st as. e = PackageDownloadErr_init st as)"
    using er by blast
  have c5: "\<forall>u m. fst (make_download_dir E self w) = Inr u \<longrightarrow>
         fst (download E self w (Some rs) (Some rf) nw) \<noteq> Inl (ValueError m)"
    using nv by blast
  have c6: "\<forall>as. build_args E self (Some rs) (Some rf) nw = Inr as \<longrightarrow>
         (PStr ''-r'' \<in> set as \<longleftrightarrow> download_path self = Some ''-r'' \<or> ''-r'' \<in> set rs)"
    using r by (simp add: b)
  from b same [of self] dl c4 c5 c6 show ?thesis by (intro conjI)
qed

theorem requirements_take_precedence_witness:
  "build_args (stub_env (final_release [7, 1, 2])) (init (Some ''packages''))
      (Some [''mock'', ''requests==1.2.1'']) (Some ''requirements.txt'') False =
     Inr [PStr ''install'', PStr ''-d'', PStr ''packages'', PStr ''mock'',
          PStr ''requests==1.2.1'']
   \<and> PStr ''-r'' \<notin> set [PStr ''install'', PStr ''-d'', PStr ''packages'', PStr ''mock'',
          PStr ''requests==1.2.1'']"
proof -
  let ?E = "stub_env (final_release [7, 1, 2])"
  let ?s = "init (Some ''packages'')"
  let ?rs = "[''mock'', ''requests==1.2.1'']"
  have b: "build_args ?E ?s (Some ?rs) (Some ''requirements.txt'') False =
     Inr [PStr ''install'', PStr ''-d'', PStr ''packages'', PStr ''mock'',
          PStr ''requests==1.2.1'']"
    using requirements_take_precedence [of ?E ?s ?rs "''requirements.txt''" False empty_world]
    by (simp add: version_defs stub_defs)
  have "PStr ''-r'' \<in> set [PStr ''install'', PStr ''-d'', PStr ''packages'', PStr ''mock'',
          PStr ''requests==1.2.1'']
      \<longleftrightarrow> download_path ?s = Some ''-r'' \<or> ''-r'' \<in> set ?rs"
    using requirements_take_precedence [of ?E ?s ?rs "''requirements.txt''" False empty_world] b
    by blast
  then have "PStr ''-r'' \<notin> set [PStr ''install'', PStr ''-d'', PStr ''packages'', PStr ''mock'',
          PStr ''requests==1.2.1'']"
    by (simp add: init_def)
  with b show ?thesis by (intro conjI)
qed

text \<open>
  C9. An empty list of requirements is accepted: the argument list ends after the
  subcommand, \<^verbatim>\<open>-d\<close>, the destination and the optional \<^verbatim>\<open>--no-use-wheel\<close>.
  \<^verbatim>\<open>_build_args\<close> raises exactly when both arguments are absent, and then the
  \<^verbatim>\<open>ValueError\<close>. Once the directory step has returned, \<^verbatim>\<open>download\<close> invokes pip
  with that list.
\<close>

theorem empty_requirements_accepted:
  "build_args E self (Some []) None nw =
     Inr ([PStr (pip_command E), PStr ''-d'', path_arg (download_path self)]
          @ (if nw then [PStr ''--no-use-wheel''] else []))
   \<and> ((\<exists>e. build_args E self rq rf nw = Inl e) \<longleftrightarrow> rq = None \<and> rf = None)
   \<and> (\<forall>e. build_args E self rq rf nw = Inl e \<longrightarrow>
         e = ValueError ''Either requirements or requirements_file must be given.'')
   \<and> (\<forall>u m. fst (make_download_dir E self w) = Inr u \<longrightarrow>
         fst (download E self w (Some []) None nw) \<noteq> Inl (ValueError m))
   \<and> (\<forall>u s1 w1. make_download_dir E self w = (Inr u, s1, w1) \<longrightarrow>
         (\<exists>d. download_path s1 = Some d
            \<and> io_log (snd (snd (download E self w (Some []) None nw))) =
                io_log w1 @
                [PipMain ([PStr (pip_command E), PStr ''-d'', PStr d]
                          @ (if nw then [PStr ''--no-use-wheel''] else []))]))"
proof -
  have b: "build_args E self (Some []) None nw =
     Inr ([PStr (pip_command E), PStr ''-d'', path_arg (download_path self)]
          @ (if nw then [PStr ''--no-use-wheel''] else []))"
    by (simp add: build_args_shape)
  have e: "(\<exists>e. build_args E self rq rf nw = Inl e) \<longleftrightarrow> rq = None \<and> rf = None"
    by (simp add: build_args_shape)
  have v: "\<forall>e. build_args E self rq rf nw = Inl e \<longrightarrow>
         e = ValueError ''Either requirements or requirements_file must be given.''"
    by (auto simp: build_args_shape split: if_splits)
  have nv: "fst (download E self w (Some []) None nw) \<noteq> Inl (ValueError m)"
    if "fst (make_download_dir E self w) = Inr u" for u m
  proof
    assume a: "fst (download E self w (Some []) None nw) = Inl (ValueError m)"
    from download_error_cases [OF a] that show False
      by (auto simp: PackageDownloadErr_init_def)
  qed
  have lg: "\<exists>d. download_path s1 = Some d
            \<and> io_log (snd (snd (download E self w (Some []) None nw))) =
                io_log w1 @
                [PipMain ([PStr (pip_command E), PStr ''-d'', PStr d]
                          @ (if nw then [PStr ''--no-use-wheel''] else []))]"
    if m: "make_download_dir E self w = (Inr u, s1, w1)" for u s1 w1
  proof -
    from make_download_dir_resolves [OF m] obtain d where d: "download_path s1 = Some d" ..
    have "io_log (snd (snd (download E self w (Some []) None nw))) =
        io_log w1 @
        [PipMain ([PStr (pip_command E), PStr ''-d'', PStr d]
                  @ (if nw then [PStr ''--no-use-wheel''] else []))]"
      by (simp add: download_def m build_args_shape d split: prod.splits)
    with d show ?thesis by blast
  qed
  from b e v nv lg show ?thesis by blast
qed

theorem empty_requirements_accepted_witness:
  "build_args (stub_env (final_release [9, 0, 3])) (init (Some ''packages'')) (Some []) None True =
     Inr [PStr ''download'', PStr ''-d'', PStr ''packages'', PStr ''--no-use-wheel'']
   \<and> io_log (snd (snd (download (stub_env (final_release [9, 0, 3])) (init (Some ''packages''))
        empty_world (Some []) None True))) =
       [MakeDirs ''packages'',
        PipMain [PStr ''download'', PStr ''-d'', PStr ''packages'', PStr ''--no-use-wheel'']]"
proof -
  let ?E = "stub_env (final_release [9, 0, 3])"
  let ?s = "init (Some ''packages'')"
  have c: "pip_command ?E = ''download''"
    by (simp add: version_defs stub_defs)
  have p: "download_path ?s = Some ''packages''"
    by (simp add: init_def)
  note t = empty_requirements_accepted [of ?E ?s True None None empty_world]
  have b: "build_args ?E ?s (Some []) None True =
     Inr [PStr ''download'', PStr ''-d'', PStr ''packages'', PStr ''--no-use-wheel'']"
    using t by (simp add: c p)
  define w1 where "w1 = snd (snd (make_download_dir ?E ?s empty_world))"
  have m: "make_download_dir ?E ?s empty_world = (Inr (), ?s, w1)"
    by (simp add: w1_def make_download_dir_def stub_defs)
  have g: "io_log w1 = [MakeDirs ''packages'']"
    by (simp add: w1_def make_download_dir_log init_def empty_world_def)
  from t m obtain d where d: "download_path ?s = Some d"
    and l: "io_log (snd (snd (download ?E ?s empty_world (Some []) None True))) =
       io_log w1 @
       [PipMain ([PStr (pip_command ?E), PStr ''-d'', PStr d]
                 @ (if True then [PStr ''--no-use-wheel''] else []))]"
    by blast
  from d p have "d = ''packages''" by simp
  with b l g show ?thesis by (simp add: c)
qed

text \<open>
  C10. The argument list depends on the destination path, the requirements, the
  requirements file, the flag and the version of pip only: two instances with the same path,
  in two environments with the same version, build the same list.
\<close>

theorem build_args_deterministic:
  assumes "download_path s1 = download_path s2" and "pip_version E1 = pip_version E2"
  shows "build_args E1 s1 rq rf nw = build_args E2 s2 rq rf nw"
  using assms by (simp add: build_args_def pip_command_def)

theorem build_args_deterministic_witness:
  "build_args (stub_env (final_release [7, 1, 2])) (init (Some ''packages''))
      (Some [''mock'']) None True =
   build_args (failing_env (final_release [7, 1, 2])) (init (Some ''packages''))
      (Some [''mock'']) None True
   \<and> mkdtemp (stub_env (final_release [7, 1, 2])) = mkdtemp (failing_env (final_release [7, 1, 2]))
   \<and> pip_main (stub_env (final_release [7, 1, 2])) [] Map.empty
       \<noteq> pip_main (failing_env (final_release [7, 1, 2])) [] Map.empty"
proof -
  have v: "pip_version (stub_env (final_release [7, 1, 2])) =
      pip_version (failing_env (final_release [7, 1, 2]))"
    by (simp add: stub_defs)
  have d: "pip_main (stub_env (final_release [7, 1, 2])) [] Map.empty
       \<noteq> pip_main (failing_env (final_release [7, 1, 2])) [] Map.empty"
    by (simp add: stub_defs)
  have m: "mkdtemp (stub_env (final_release [7, 1, 2])) =
      mkdtemp (failing_env (final_release [7, 1, 2]))"
    by (simp add: stub_defs)
  from build_args_deterministic [OF refl v] d m show ?thesis by blast
qed

end
